theory Spec2Isabelle
  imports Main "HOL-Library.AList"
begin

section \<open>Python values, strings and process effects\<close>

text \<open>
  A Python \<open>str\<close> is a \<open>string\<close> (one \<open>char\<close> per character). A function of the
  program that prints or terminates the process returns a pair: the lines it printed, in
  order, each tagged with its stream, and either the exception that left the function
  (\<open>Inl\<close>) or its return value (\<open>Inr\<close>). \<open>sys.exit(c)\<close> raises \<open>SystemExit c\<close>.
\<close>

datatype stream_line = Stdout string | Stderr string

datatype raised =
    SystemExit int
  | KeyboardInterrupt
  | ImportError string
  | Exception string

type_synonym 'a io = "stream_line list \<times> (raised + 'a)"

definition io_return :: "'a \<Rightarrow> 'a io" where
  "io_return x = ([], Inr x)"

definition io_bind :: "'a io \<Rightarrow> ('a \<Rightarrow> 'b io) \<Rightarrow> 'b io" where
  "io_bind m f =
     (case m of
        (out1, Inl e) \<Rightarrow> (out1, Inl e)
      | (out1, Inr x) \<Rightarrow> (case f x of (out2, r) \<Rightarrow> (out1 @ out2, r)))"

definition print_stdout :: "string \<Rightarrow> unit io" where
  "print_stdout s = ([Stdout s], Inr ())"

definition print_stderr :: "string \<Rightarrow> unit io" where
  "print_stderr s = ([Stderr s], Inr ())"

definition sys_exit :: "int \<Rightarrow> 'a io" where
  "sys_exit c = ([], Inl (SystemExit c))"

text \<open>\<open>s.startswith(p)\<close>.\<close>

definition startswith :: "string \<Rightarrow> string \<Rightarrow> bool" where
  "startswith s p = (take (length p) s = p)"

text \<open>
  \<open>s.replace(old, new)\<close>: every non-overlapping occurrence of \<open>old\<close>, scanning from the
  left, is replaced. For an empty \<open>old\<close> Python puts \<open>new\<close> before every character and at
  the end.
\<close>

function py_replace :: "string \<Rightarrow> string \<Rightarrow> string \<Rightarrow> string" where
  "py_replace old new s =
     (if old = [] then new @ concat (map (\<lambda>c. c # new) s)
      else if s = [] then []
      else if startswith s old then new @ py_replace old new (drop (length old) s)
      else hd s # py_replace old new (tl s))"
  by pat_completeness auto
termination
  by (relation "measure (\<lambda>(old, new, s). length s)") auto

declare py_replace.simps [simp del]

text \<open>\<open>s.split(sep)\<close> for a separator of one character: \<open>n\<close> separators give \<open>n + 1\<close> parts.\<close>

fun split_on :: "char \<Rightarrow> string \<Rightarrow> string list" where
  "split_on sep [] = [[]]"
| "split_on sep (c # cs) =
     (if c = sep then [] # split_on sep cs
      else (case split_on sep cs of
              [] \<Rightarrow> [[c]]
            | p # ps \<Rightarrow> (c # p) # ps))"

section \<open>sources/airtable.py\<close>

definition airtable_error :: "string \<Rightarrow> int \<Rightarrow> 'a io" where
  "airtable_error message exit_code =
     io_bind (print_stderr (''Error: '' @ message)) (\<lambda>_. sys_exit exit_code)"

definition api_prefix :: string where
  "api_prefix = ''https://api.airtable.com/''"

definition human_prefix :: string where
  "human_prefix = ''https://airtable.com/''"

definition msg_invalid_url :: string where
  "msg_invalid_url =
     ''Invalid Airtable URL. Expected format: https://airtable.com/appXXXXX/tblXXXXX/viwXXXXX''"

definition msg_invalid_format :: string where
  "msg_invalid_format =
     ''Invalid Airtable URL format. Expected: https://airtable.com/appXXXXX/tblXXXXX/viwXXXXX''"

definition msg_invalid_components :: string where
  "msg_invalid_components =
     ''Invalid Airtable URL components. Expected appXXXXX/tblXXXXX/viwXXXXX format''"

definition api_url_of :: "string \<Rightarrow> string \<Rightarrow> string \<Rightarrow> string" where
  "api_url_of app_id table_id view_id =
     ''https://api.airtable.com/v0/'' @ app_id @ ''/'' @ table_id @ ''?view='' @ view_id"

definition convert_url :: "string \<Rightarrow> string io" where
  "convert_url url =
     (if startswith url api_prefix then io_return url
      else if \<not> startswith url human_prefix then airtable_error msg_invalid_url 1
      else
        let parts = split_on (CHR ''/'') (py_replace human_prefix [] url) in
        if length parts < 3 then airtable_error msg_invalid_format 1
        else
          let app_id = parts ! 0; table_id = parts ! 1; view_id = parts ! 2 in
          if \<not> (startswith app_id ''app'' \<and> startswith table_id ''tbl''
                 \<and> startswith view_id ''viw'')
          then airtable_error msg_invalid_components 1
          else io_return (api_url_of app_id table_id view_id))"

text \<open>
  The conversion as the specification words it, for comparison with \<open>convert_url\<close>: the
  human-facing prefix is stripped from the front of the input and the remainder is split.
\<close>

definition convert_url_spec :: "string \<Rightarrow> string io" where
  "convert_url_spec url =
     (if startswith url api_prefix then io_return url
      else if \<not> startswith url human_prefix then airtable_error msg_invalid_url 1
      else
        let parts = split_on (CHR ''/'') (drop (length human_prefix) url) in
        if length parts < 3 then airtable_error msg_invalid_format 1
        else
          let app_id = parts ! 0; table_id = parts ! 1; view_id = parts ! 2 in
          if \<not> (startswith app_id ''app'' \<and> startswith table_id ''tbl''
                 \<and> startswith view_id ''viw'')
          then airtable_error msg_invalid_components 1
          else io_return (api_url_of app_id table_id view_id))"

section \<open>Python values\<close>

text \<open>
  The values a decoded JSON document holds. A float is the pair \<open>(m, e)\<close> standing for
  \<open>m * 2 ^ e\<close>; a \<open>dict\<close> is an association list in insertion order, read with
  \<open>map_of\<close> and written with \<open>AList.update\<close> (an existing key keeps its place, a new
  key goes to the end).
\<close>

datatype pyval =
    PNone
  | PBool bool
  | PInt int
  | PFloat int int
  | PStr string
  | PList "pyval list"
  | PDict "(string \<times> pyval) list"

type_synonym dict = "(string \<times> pyval) list"

fun str_nat :: "nat \<Rightarrow> string" where
  "str_nat n =
     (if n < 10 then [''0123456789'' ! n]
      else str_nat (n div 10) @ [''0123456789'' ! (n mod 10)])"

declare str_nat.simps [simp del]

definition str_int :: "int \<Rightarrow> string" where
  "str_int i = (if i < 0 then CHR ''-'' # str_nat (nat (- i)) else str_nat (nat i))"

text \<open>
  The builtin \<open>str\<close>. On \<open>None\<close>, booleans, integers and strings it is written out; the
  text Python gives a float, a list or a dict is the parameter \<open>repr_other\<close>.
\<close>

fun py_str :: "(pyval \<Rightarrow> string) \<Rightarrow> pyval \<Rightarrow> string" where
  "py_str repr_other PNone = ''None''"
| "py_str repr_other (PBool b) = (if b then ''True'' else ''False'')"
| "py_str repr_other (PInt i) = str_int i"
| "py_str repr_other (PStr s) = s"
| "py_str repr_other v = repr_other v"

section \<open>commands/gr.py\<close>

fun flatten_array_value :: "(pyval \<Rightarrow> string) \<Rightarrow> pyval \<Rightarrow> string" where
  "flatten_array_value repr_other (PList xs) =
     (if length xs > 0 then py_str repr_other (xs ! 0) else [])"
| "flatten_array_value repr_other v =
     (if v \<noteq> PNone then py_str repr_other v else [])"

definition abbreviate_name :: "string \<Rightarrow> string" where
  "abbreviate_name name = take 4 name"

definition process_record :: "(pyval \<Rightarrow> string) \<Rightarrow> dict \<Rightarrow> dict" where
  "process_record repr_other record =
     (case map_of record ''Family name'' of
        None \<Rightarrow> record
      | Some old \<Rightarrow>
          let name = flatten_array_value repr_other old
          in AList.update ''Family name'' (PStr (abbreviate_name name)) record)"

text \<open>\<open>data\<close> may be \<open>None\<close>; \<open>not data\<close> holds for \<open>None\<close> and for the empty list.\<close>

definition process :: "(pyval \<Rightarrow> string) \<Rightarrow> dict list option \<Rightarrow> dict list" where
  "process repr_other data =
     (case data of
        None \<Rightarrow> []
      | Some records \<Rightarrow>
          if records = [] then [] else map (process_record repr_other) records)"

section \<open>display.py\<close>

text \<open>The character U+2717 that prefixes an error line, as its UTF-8 bytes.\<close>

definition cross_mark :: string where
  "cross_mark = [char_of (226 :: nat), char_of (156 :: nat), char_of (151 :: nat)]"

definition print_error :: "string \<Rightarrow> unit io" where
  "print_error message = print_stderr (cross_mark @ '' '' @ message)"

definition display_error :: "string \<Rightarrow> int \<Rightarrow> 'a io" where
  "display_error message exit_code =
     io_bind (print_error message) (\<lambda>_. sys_exit exit_code)"

definition format_cell :: "(pyval \<Rightarrow> string) \<Rightarrow> dict \<Rightarrow> string \<Rightarrow> string" where
  "format_cell repr_other row column =
     (let value = (case map_of row column of None \<Rightarrow> PStr [] | Some v \<Rightarrow> v);
          str_value = (if value \<noteq> PNone then py_str repr_other value else [])
      in if length str_value > 50 then take 47 str_value @ ''...'' else str_value)"

definition format ::
  "(pyval \<Rightarrow> string) \<Rightarrow> dict list \<Rightarrow> string list \<Rightarrow> string list \<Rightarrow> string list list io"
where
  "format repr_other data columns headers =
     (if length columns \<noteq> length headers
      then display_error
             (''Columns ('' @ str_nat (length columns) @ '') and headers (''
                @ str_nat (length headers) @ '') count mismatch'') 1
      else io_return (map (\<lambda>row. map (format_cell repr_other row) columns) data))"

text \<open>
  The library call \<open>tabulate(data, headers=headers, tablefmt=style)\<close> is the parameter
  \<open>tabulate\<close>: \<open>Inr\<close> the rendered table, \<open>Inl\<close> the text of the exception it raised.
\<close>

type_synonym tabulate_fn = "string list list \<Rightarrow> string list \<Rightarrow> string \<Rightarrow> string + string"

definition table :: "tabulate_fn \<Rightarrow> string list list \<Rightarrow> string list \<Rightarrow> string \<Rightarrow> string io" where
  "table tabulate data headers style =
     (if data = [] then io_return ''No data to display''
      else (case tabulate data headers style of
              Inr rendered \<Rightarrow> io_return rendered
            | Inl e \<Rightarrow> display_error (''Error formatting table: '' @ e) 1))"

definition print_table ::
  "(pyval \<Rightarrow> string) \<Rightarrow> tabulate_fn \<Rightarrow> dict list \<Rightarrow> string list \<Rightarrow> string list \<Rightarrow> unit io"
where
  "print_table repr_other tabulate data columns headers =
     (if data = [] then print_stdout ''No data available''
      else
        io_bind (format repr_other data columns headers) (\<lambda>formatted_data.
        io_bind (table tabulate formatted_data headers ''grid'') (\<lambda>table_output.
        print_stdout table_output)))"

section \<open>config.py\<close>

text \<open>
  The process environment as \<open>os.getenv\<close> reads it once \<open>load\<close> has run: a map from
  variable names to values.
\<close>

type_synonym environ = "string \<rightharpoonup> string"

definition config_get :: "environ \<Rightarrow> string \<Rightarrow> string option \<Rightarrow> string option" where
  "config_get env key dflt = (case env key of None \<Rightarrow> dflt | Some v \<Rightarrow> Some v)"

definition config_error :: "string \<Rightarrow> int \<Rightarrow> 'a io" where
  "config_error message exit_code =
     io_bind (print_stderr (''Error: '' @ message)) (\<lambda>_.
     io_bind (print_stderr ''Tip: Copy .env.example to .env and add your credentials'') (\<lambda>_.
     sys_exit exit_code))"

definition require :: "environ \<Rightarrow> string \<Rightarrow> string io" where
  "require env key =
     (case config_get env key None of
        None \<Rightarrow> config_error (''Required environment variable '' @ key @ '' not set'') 1
      | Some v \<Rightarrow>
          if v = [] then config_error (''Required environment variable '' @ key @ '' not set'') 1
          else io_return v)"

text \<open>\<open>s.lower()\<close> on the letters \<open>A\<close> to \<open>Z\<close>; every other character is kept.\<close>

definition lower_char :: "char \<Rightarrow> char" where
  "lower_char c =
     (let n = (of_char c :: nat) in if 65 \<le> n \<and> n \<le> 90 then char_of (n + 32) else c)"

definition py_lower :: "string \<Rightarrow> string" where
  "py_lower s = map lower_char s"

definition debug_enabled :: "environ \<Rightarrow> bool" where
  "debug_enabled env =
     (case config_get env ''FAC_CLI_DEBUG'' (Some ''false'') of
        None \<Rightarrow> False
      | Some v \<Rightarrow> py_lower v = ''true'')"

definition opt_str :: "string option \<Rightarrow> pyval" where
  "opt_str v = (case v of None \<Rightarrow> PNone | Some s \<Rightarrow> PStr s)"

definition validate :: "environ \<Rightarrow> dict io" where
  "validate env =
     io_bind (require env ''AIRTABLE_API_KEY'') (\<lambda>api_key.
     io_bind (require env ''AIRTABLE_VIEW_URL'') (\<lambda>view_url.
     io_return
       [(''AIRTABLE_API_KEY'', PStr api_key),
        (''AIRTABLE_VIEW_URL'', PStr view_url),
        (''GR_COLUMNS'', opt_str (config_get env ''GR_COLUMNS'' (Some ''Name,Email,Status,Date''))),
        (''GR_HEADERS'',
           opt_str (config_get env ''GR_HEADERS''
             (Some ''Student Name,Email Address,Current Status,Last Updated''))),
        (''FAC_CLI_DEBUG'', PBool (debug_enabled env))]))"

section \<open>fac.py\<close>

definition parse :: "string list \<Rightarrow> string \<times> string list" where
  "parse args =
     (if length args < 2 then (''help'', [])
      else
        let command = args ! 1;
            remaining_args = (if length args > 2 then drop 2 args else [])
        in (command, remaining_args))"

fun join_lines :: "string list \<Rightarrow> string" where
  "join_lines [] = []"
| "join_lines [l] = l"
| "join_lines (l # ls) = l @ [CHR 0x0A] @ join_lines ls"

text \<open>\<open>help_text.strip()\<close>: the literal without its first and last line break.\<close>

definition help_text :: string where
  "help_text = join_lines
     [''FAC CLI - Founders and Coders Training Operations'',
      '''',
      ''Usage:'',
      ''  ./fac.py <command> [options]'',
      '''',
      ''Available commands:'',
      ''  gr              Gateway recent - fetch and display recent gateway data'',
      ''  help, --help    Show this help message'',
      '''',
      ''Examples:'',
      ''  ./fac.py gr     Display recent gateway data from Airtable'',
      ''  ./fac.py help   Show this help message'',
      '''',
      ''Configuration:'',
      ''  Copy .env.example to .env and configure your Airtable credentials.'',
      '''',
      ''For more information, see README.md'']"

definition show_help :: "unit io" where
  "show_help = print_stdout help_text"

definition show_error :: "string \<Rightarrow> 'a io" where
  "show_error message =
     io_bind (print_stderr (''Error: '' @ message)) (\<lambda>_.
     io_bind (print_stderr (''Use '' @ [CHR 0x27] @ ''./fac.py help'' @ [CHR 0x27]
                              @ '' for usage information'')) (\<lambda>_.
     sys_exit 1))"

text \<open>
  \<open>gr_run\<close> is the command module: \<open>None\<close> when \<open>from commands import gr\<close> raises
  \<open>ImportError\<close>, otherwise its \<open>run\<close>.
\<close>

definition run_gr :: "(string list \<Rightarrow> unit io) option \<Rightarrow> string list \<Rightarrow> unit io" where
  "run_gr gr_run args =
     (case gr_run of
        None \<Rightarrow> config_error ''Gateway recent command module not found'' 1
      | Some run \<Rightarrow>
          (case run args of
             (out, Inl (ImportError e)) \<Rightarrow>
               io_bind (out, Inr ()) (\<lambda>_.
                 config_error ''Gateway recent command module not found'' 1)
           | r \<Rightarrow> r))"

text \<open>
  The \<open>except\<close> clauses of \<open>dispatch\<close>. \<open>SystemExit\<close> is not an \<open>Exception\<close> and passes
  through; with the debug flag set an exception is raised again.
\<close>

definition on_exception :: "environ \<Rightarrow> stream_line list \<Rightarrow> raised \<Rightarrow> string \<Rightarrow> unit io" where
  "on_exception env out exc msg =
     (if debug_enabled env then (out, Inl exc)
      else io_bind (out, Inr ()) (\<lambda>_.
           io_bind (print_stderr (''Error: '' @ msg)) (\<lambda>_. sys_exit 1)))"

definition dispatch_except :: "environ \<Rightarrow> unit io \<Rightarrow> unit io" where
  "dispatch_except env body =
     (case body of
        (out, Inl KeyboardInterrupt) \<Rightarrow>
          io_bind (out, Inr ()) (\<lambda>_.
          io_bind (print_stderr ([CHR 0x0A] @ ''Operation cancelled by user'')) (\<lambda>_.
          sys_exit 130))
      | (out, Inl (ImportError e)) \<Rightarrow> on_exception env out (ImportError e) e
      | (out, Inl (Exception e)) \<Rightarrow> on_exception env out (Exception e) e
      | _ \<Rightarrow> body)"

definition dispatch ::
  "environ \<Rightarrow> (string list \<Rightarrow> unit io) option \<Rightarrow> string \<Rightarrow> string list \<Rightarrow> unit io"
where
  "dispatch env gr_run command args =
     (if command \<in> set [''help'', ''--help'', ''-h''] then show_help
      else if command \<in> set [''gr'']
      then dispatch_except env
             (io_bind (validate env) (\<lambda>_. run_gr gr_run args))
      else show_error (''Unknown command: '' @ command))"

definition route :: "environ \<Rightarrow> (string list \<Rightarrow> unit io) option \<Rightarrow> string list \<Rightarrow> unit io" where
  "route env gr_run args = (case parse args of (command, cmd_args) \<Rightarrow> dispatch env gr_run command cmd_args)"

text \<open>
  The exit status of the process that ran \<open>main\<close>: 0 when it returns, the code of a
  \<open>SystemExit\<close>, and 1 when another exception reaches the top level.
\<close>

definition exit_status :: "unit io \<Rightarrow> int" where
  "exit_status r =
     (case snd r of
        Inr _ \<Rightarrow> 0
      | Inl (SystemExit c) \<Rightarrow> c
      | Inl _ \<Rightarrow> 1)"

text \<open>\<open>p in s\<close>: the string \<open>p\<close> occurs somewhere in \<open>s\<close>.\<close>

fun py_contains :: "string \<Rightarrow> string \<Rightarrow> bool" where
  "py_contains [] p = (p = [])"
| "py_contains (c # cs) p = (startswith (c # cs) p \<or> py_contains cs p)"

text \<open>
  A stand-in for \<open>repr_other\<close> in evaluations on inputs whose floats, lists and dicts
  are never turned into text.
\<close>

definition repr_unused :: "pyval \<Rightarrow> string" where
  "repr_unused v = []"

section \<open>Basic facts\<close>

lemma airtable_error_eq:
  "airtable_error m c = ([Stderr (''Error: '' @ m)], Inl (SystemExit c))"
  by (simp add: airtable_error_def io_bind_def print_stderr_def sys_exit_def)

lemma display_error_eq:
  "display_error m c = ([Stderr (cross_mark @ '' '' @ m)], Inl (SystemExit c))"
  by (simp add: display_error_def print_error_def io_bind_def print_stderr_def sys_exit_def)

lemma startswith_api_url_of: "startswith (api_url_of a t v) api_prefix"
  by (simp add: startswith_def api_url_of_def api_prefix_def)

lemma convert_url_success:
  "convert_url u = (out, Inr v) \<Longrightarrow> out = [] \<and> startswith v api_prefix"
  by (auto simp: convert_url_def Let_def io_return_def airtable_error_eq
        startswith_api_url_of split: if_splits)

lemma convert_url_scenario:
  "convert_url ''https://airtable.com/appA1/tblB2/viwC3''
     = ([], Inr ''https://api.airtable.com/v0/appA1/tblB2?view=viwC3'')"
  by code_simp

section \<open>URL conversion\<close>

subsection \<open>Where \<open>replace\<close> and stripping the prefix agree\<close>

lemma py_replace_absent:
  "old \<noteq> [] \<Longrightarrow> \<forall>k. \<not> startswith (drop k s) old \<Longrightarrow> py_replace old new s = s"
proof (induction old new s rule: py_replace.induct)
  case (1 old new s)
  show ?case
  proof (cases s)
    case Nil
    then show ?thesis using "1.prems" by (simp add: py_replace.simps)
  next
    case (Cons c cs)
    from "1.prems"(2) have no0: "\<not> startswith s old" by (metis drop0)
    have "\<forall>k. \<not> startswith (drop k (tl s)) old"
    proof
      fix k
      from "1.prems"(2) have "\<not> startswith (drop (Suc k) s) old" by blast
      then show "\<not> startswith (drop k (tl s)) old" using Cons by simp
    qed
    with "1.IH"(2) "1.prems"(1) no0 Cons have "py_replace old new (tl s) = tl s" by simp
    then show ?thesis using "1.prems"(1) no0 Cons by (subst py_replace.simps) simp
  qed
qed

lemma py_replace_prefix:
  "old \<noteq> [] \<Longrightarrow> startswith s old \<Longrightarrow>
   py_replace old new s = new @ py_replace old new (drop (length old) s)"
  by (subst py_replace.simps) (auto simp: startswith_def)

text \<open>
  On every input in which the human-facing prefix does not occur again after the front,
  the code and the specification's wording give the same result.
\<close>

lemma convert_url_agrees_with_spec:
  assumes "\<forall>k. \<not> startswith (drop (length human_prefix + k) url) human_prefix"
  shows "convert_url url = convert_url_spec url"
proof (cases "startswith url human_prefix")
  case True
  have ne: "human_prefix \<noteq> []" by (simp add: human_prefix_def)
  have "\<forall>k. \<not> startswith (drop k (drop (length human_prefix) url)) human_prefix"
    using assms by (simp add: add.commute)
  then have "py_replace human_prefix [] (drop (length human_prefix) url)
               = drop (length human_prefix) url"
    by (rule py_replace_absent [OF ne])
  then have "py_replace human_prefix [] url = drop (length human_prefix) url"
    using py_replace_prefix [OF ne True, of "[]"] by simp
  then show ?thesis by (simp add: convert_url_def convert_url_spec_def)
next
  case False
  then show ?thesis by (simp add: convert_url_def convert_url_spec_def)
qed

subsection \<open>C1\<close>

text \<open>
  C1: an input that does not start with the API prefix must start with the human-facing
  prefix, which is stripped; the remainder is split on \<open>/\<close> and its first three segments
  must begin with \<open>app\<close>, \<open>tbl\<close>, \<open>viw\<close>. The code removes the prefix with
  \<open>replace\<close>, which deletes every occurrence: on the input below the second segment of
  the remainder is \<open>https:\<close>, so the conversion as specified ends in the component error,
  while the code joins \<open>appA\<close> with \<open>tblB\<close> and returns an API URL.
\<close>

theorem convert_url_removes_inner_prefix:
  "convert_url ''https://airtable.com/appA/https://airtable.com/tblB/viwC''
     = ([], Inr ''https://api.airtable.com/v0/appA/tblB?view=viwC'')
   \<and> convert_url_spec ''https://airtable.com/appA/https://airtable.com/tblB/viwC''
     = ([Stderr ''Error: Invalid Airtable URL components. Expected appXXXXX/tblXXXXX/viwXXXXX format''],
        Inl (SystemExit 1))"
  by code_simp

subsection \<open>C2\<close>

text \<open>
  C2 as stated fails: a URL with the wrong host prefix prints one line, the message, on
  the error stream and exits; no second line with a remediation tip follows.
\<close>

theorem convert_url_error_prints_no_tip:
  "convert_url ''https://example.com/invalid''
     = ([Stderr ''Error: Invalid Airtable URL. Expected format: https://airtable.com/appXXXXX/tblXXXXX/viwXXXXX''],
        Inl (SystemExit 1))
   \<and> length (fst (convert_url ''https://example.com/invalid'')) = 1"
  by code_simp

lemma convert_url_failure_shape:
  "convert_url u = (out, Inl e) \<Longrightarrow>
     e = SystemExit 1
     \<and> (out = [Stderr (''Error: '' @ msg_invalid_url)]
        \<or> out = [Stderr (''Error: '' @ msg_invalid_format)]
        \<or> out = [Stderr (''Error: '' @ msg_invalid_components)])"
  by (auto simp: convert_url_def Let_def io_return_def airtable_error_eq split: if_splits)

lemma human_prefix_not_api_prefix:
  assumes "startswith url human_prefix"
  shows "\<not> startswith url api_prefix"
proof
  assume "startswith url api_prefix"
  then have api: "take (length api_prefix) url = api_prefix"
    by (simp add: startswith_def)
  from assms have human: "take (length human_prefix) url = human_prefix"
    by (simp add: startswith_def)
  have len: "length human_prefix \<le> length api_prefix"
    by (simp add: api_prefix_def human_prefix_def)
  have "take (length human_prefix) (take (length api_prefix) url)
          = take (length human_prefix) url"
    using len by (simp add: min_def)
  with api human have "take (length human_prefix) api_prefix = human_prefix" by simp
  then show False by (simp add: api_prefix_def human_prefix_def)
qed

lemma py_contains_absent:
  "\<not> py_contains s p \<Longrightarrow> \<not> startswith (drop k s) p"
proof (induction s arbitrary: k)
  case Nil
  then show ?case by (auto simp: startswith_def)
next
  case (Cons c cs)
  then show ?case by (cases k) auto
qed

lemma py_replace_strips_single_prefix:
  assumes "startswith url human_prefix"
    and "\<not> py_contains (drop (length human_prefix) url) human_prefix"
  shows "py_replace human_prefix [] url = drop (length human_prefix) url"
proof -
  have ne: "human_prefix \<noteq> []" by (simp add: human_prefix_def)
  have "\<forall>k. \<not> startswith (drop k (drop (length human_prefix) url)) human_prefix"
    using py_contains_absent [OF assms(2)] by blast
  then have "py_replace human_prefix [] (drop (length human_prefix) url)
               = drop (length human_prefix) url"
    by (rule py_replace_absent [OF ne])
  then show ?thesis using py_replace_prefix [OF ne assms(1), of "[]"] by simp
qed

text \<open>
  C2, amended: each URL-shape fault is reported by exactly one line on the error stream,
  \<open>Error: \<close> followed by the message of that fault, and \<open>SystemExit 1\<close>; no tip line
  is printed. The faults: an input with neither the API nor the human-facing prefix; and,
  for an input with the human-facing prefix in which that prefix does not occur again,
  fewer than three segments after the prefix, or three or more segments of which one of
  the first three does not begin with \<open>app\<close>, \<open>tbl\<close>, \<open>viw\<close> respectively.
  Conversely every failure of \<open>convert_url\<close> prints one of these three lines alone.
\<close>

theorem convert_url_error_output:
  "(\<not> startswith url api_prefix \<and> \<not> startswith url human_prefix \<longrightarrow>
      convert_url url = ([Stderr (''Error: '' @ msg_invalid_url)], Inl (SystemExit 1)))
   \<and> (startswith url human_prefix
        \<and> \<not> py_contains (drop (length human_prefix) url) human_prefix \<longrightarrow>
        (let parts = split_on (CHR ''/'') (drop (length human_prefix) url) in
           (length parts < 3 \<longrightarrow>
              convert_url url
                = ([Stderr (''Error: '' @ msg_invalid_format)], Inl (SystemExit 1)))
         \<and> (3 \<le> length parts
              \<and> \<not> (startswith (parts ! 0) ''app'' \<and> startswith (parts ! 1) ''tbl''
                     \<and> startswith (parts ! 2) ''viw'') \<longrightarrow>
              convert_url url
                = ([Stderr (''Error: '' @ msg_invalid_components)], Inl (SystemExit 1)))))
   \<and> (\<forall>out e. convert_url url = (out, Inl e) \<longrightarrow>
         e = SystemExit 1
         \<and> (out = [Stderr (''Error: '' @ msg_invalid_url)]
            \<or> out = [Stderr (''Error: '' @ msg_invalid_format)]
            \<or> out = [Stderr (''Error: '' @ msg_invalid_components)]))"
proof (intro conjI)
  show "\<not> startswith url api_prefix \<and> \<not> startswith url human_prefix \<longrightarrow>
      convert_url url = ([Stderr (''Error: '' @ msg_invalid_url)], Inl (SystemExit 1))"
    by (simp add: convert_url_def airtable_error_eq)
next
  show "startswith url human_prefix
        \<and> \<not> py_contains (drop (length human_prefix) url) human_prefix \<longrightarrow>
        (let parts = split_on (CHR ''/'') (drop (length human_prefix) url) in
           (length parts < 3 \<longrightarrow>
              convert_url url
                = ([Stderr (''Error: '' @ msg_invalid_format)], Inl (SystemExit 1)))
         \<and> (3 \<le> length parts
              \<and> \<not> (startswith (parts ! 0) ''app'' \<and> startswith (parts ! 1) ''tbl''
                     \<and> startswith (parts ! 2) ''viw'') \<longrightarrow>
              convert_url url
                = ([Stderr (''Error: '' @ msg_invalid_components)], Inl (SystemExit 1))))"
  proof
    assume a: "startswith url human_prefix
        \<and> \<not> py_contains (drop (length human_prefix) url) human_prefix"
    then have strip: "py_replace human_prefix [] url = drop (length human_prefix) url"
      by (simp add: py_replace_strips_single_prefix)
    from a have "\<not> startswith url api_prefix"
      by (simp add: human_prefix_not_api_prefix)
    then show "let parts = split_on (CHR ''/'') (drop (length human_prefix) url) in
           (length parts < 3 \<longrightarrow>
              convert_url url
                = ([Stderr (''Error: '' @ msg_invalid_format)], Inl (SystemExit 1)))
         \<and> (3 \<le> length parts
              \<and> \<not> (startswith (parts ! 0) ''app'' \<and> startswith (parts ! 1) ''tbl''
                     \<and> startswith (parts ! 2) ''viw'') \<longrightarrow>
              convert_url url
                = ([Stderr (''Error: '' @ msg_invalid_components)], Inl (SystemExit 1)))"
      using a by (auto simp: convert_url_def Let_def strip airtable_error_eq)
  qed
next
  show "\<forall>out e. convert_url url = (out, Inl e) \<longrightarrow>
         e = SystemExit 1
         \<and> (out = [Stderr (''Error: '' @ msg_invalid_url)]
            \<or> out = [Stderr (''Error: '' @ msg_invalid_format)]
            \<or> out = [Stderr (''Error: '' @ msg_invalid_components)])"
    using convert_url_failure_shape by blast
qed

theorem convert_url_error_output_witness:
  "convert_url ''https://example.com/invalid''
     = ([Stderr (''Error: '' @ msg_invalid_url)], Inl (SystemExit 1))
   \<and> convert_url ''https://airtable.com/app123/tbl456''
     = ([Stderr (''Error: '' @ msg_invalid_format)], Inl (SystemExit 1))
   \<and> convert_url ''https://airtable.com/xyz123/tblABC/viwDEF''
     = ([Stderr (''Error: '' @ msg_invalid_components)], Inl (SystemExit 1))"
proof -
  have h1: "\<not> startswith ''https://example.com/invalid'' api_prefix
            \<and> \<not> startswith ''https://example.com/invalid'' human_prefix"
    by code_simp
  have r1: "convert_url ''https://example.com/invalid''
     = ([Stderr (''Error: '' @ msg_invalid_url)], Inl (SystemExit 1))"
    using convert_url_error_output [of "''https://example.com/invalid''"] h1 by blast
  have h2: "startswith ''https://airtable.com/app123/tbl456'' human_prefix
            \<and> \<not> py_contains (drop (length human_prefix) ''https://airtable.com/app123/tbl456'')
                  human_prefix"
    by code_simp
  have p2: "length (split_on (CHR ''/'')
              (drop (length human_prefix) ''https://airtable.com/app123/tbl456'')) < 3"
    by code_simp
  have r2: "convert_url ''https://airtable.com/app123/tbl456''
     = ([Stderr (''Error: '' @ msg_invalid_format)], Inl (SystemExit 1))"
    using convert_url_error_output [of "''https://airtable.com/app123/tbl456''"] h2 p2
    unfolding Let_def by blast
  have h3: "startswith ''https://airtable.com/xyz123/tblABC/viwDEF'' human_prefix
            \<and> \<not> py_contains
                  (drop (length human_prefix) ''https://airtable.com/xyz123/tblABC/viwDEF'')
                  human_prefix"
    by code_simp
  have p3: "3 \<le> length (split_on (CHR ''/'')
              (drop (length human_prefix) ''https://airtable.com/xyz123/tblABC/viwDEF''))
            \<and> \<not> startswith (split_on (CHR ''/'')
              (drop (length human_prefix) ''https://airtable.com/xyz123/tblABC/viwDEF'') ! 0)
                 ''app''"
    by code_simp
  have r3: "convert_url ''https://airtable.com/xyz123/tblABC/viwDEF''
     = ([Stderr (''Error: '' @ msg_invalid_components)], Inl (SystemExit 1))"
    using convert_url_error_output [of "''https://airtable.com/xyz123/tblABC/viwDEF''"] h3 p3
    unfolding Let_def by blast
  show ?thesis using r1 r2 r3 by blast
qed

subsection \<open>C4\<close>

text \<open>
  C4: for every URL \<open>u\<close> that \<open>convert_url\<close> accepts, converting the result again
  changes nothing: \<open>convert_url (convert_url u) = convert_url u\<close>.
\<close>

theorem convert_url_idempotent:
  "convert_url u = (out, Inr v) \<Longrightarrow> convert_url v = convert_url u"
proof -
  assume a: "convert_url u = (out, Inr v)"
  from convert_url_success [OF a] have "out = []" and "startswith v api_prefix"
    by simp_all
  then show ?thesis using a by (simp add: convert_url_def io_return_def)
qed

theorem convert_url_idempotent_witness:
  "convert_url ''https://airtable.com/appA1/tblB2/viwC3''
     = ([], Inr ''https://api.airtable.com/v0/appA1/tblB2?view=viwC3'')
   \<and> convert_url ''https://api.airtable.com/v0/appA1/tblB2?view=viwC3''
     = convert_url ''https://airtable.com/appA1/tblB2/viwC3''"
proof -
  have h: "convert_url ''https://airtable.com/appA1/tblB2/viwC3''
     = ([], Inr ''https://api.airtable.com/v0/appA1/tblB2?view=viwC3'')"
    by code_simp
  show ?thesis using h convert_url_idempotent [OF h] by simp
qed

section \<open>Record transform\<close>

lemma process_record_map_of:
  "map_of (process_record r rec) k =
     (if k = ''Family name''
      then map_option (\<lambda>v. PStr (abbreviate_name (flatten_array_value r v))) (map_of rec k)
      else map_of rec k)"
  by (auto simp: process_record_def Let_def update_conv' split: option.splits)

lemma process_record_keys: "map fst (process_record r rec) = map fst rec"
  by (auto simp: process_record_def Let_def update_keys map_of_eq_None_iff
        split: option.splits dest: map_of_SomeD)

subsection \<open>C3\<close>

text \<open>
  C3: \<open>process\<close> returns the empty list for \<open>None\<close> and for the empty list. For every
  list of records the output has the same length; each output record has the keys of
  its input record, in the same order; every key other than \<open>Family name\<close> is mapped to
  the same value as in the input; a present \<open>Family name\<close> value \<open>v\<close> is replaced by the
  string \<open>abbreviate_name (flatten_array_value v)\<close>. The scenario of the specification
  is the last conjunct.
\<close>

theorem process_preserves_records:
  "process r None = [] \<and> process r (Some []) = []
   \<and> length (process r (Some rs)) = length rs
   \<and> (\<forall>i < length rs.
        map fst (process r (Some rs) ! i) = map fst (rs ! i)
        \<and> (\<forall>k. k \<noteq> ''Family name'' \<longrightarrow>
              map_of (process r (Some rs) ! i) k = map_of (rs ! i) k)
        \<and> map_of (process r (Some rs) ! i) ''Family name''
            = map_option (\<lambda>v. PStr (abbreviate_name (flatten_array_value r v)))
                (map_of (rs ! i) ''Family name''))
   \<and> process r (Some [[(''Family name'', PList [PStr ''Elizabeth'']), (''Status'', PStr ''x'')]])
       = [[(''Family name'', PStr ''Eliz''), (''Status'', PStr ''x'')]]"
  by (simp add: process_def process_record_map_of process_record_keys)
     (simp add: process_record_def abbreviate_name_def)

theorem process_preserves_records_witness:
  "length (process repr_unused
       (Some [[(''Family name'', PStr ''SingleName''), (''Status'', PStr ''active'')]])) = 1
   \<and> map_of (process repr_unused
       (Some [[(''Family name'', PStr ''SingleName''), (''Status'', PStr ''active'')]]) ! 0)
       ''Status'' = Some (PStr ''active'')
   \<and> map_of (process repr_unused
       (Some [[(''Family name'', PStr ''SingleName''), (''Status'', PStr ''active'')]]) ! 0)
       ''Family name'' = Some (PStr ''Sing'')"
  using process_preserves_records
          [of repr_unused "[[(''Family name'', PStr ''SingleName''), (''Status'', PStr ''active'')]]"]
  by (simp add: abbreviate_name_def)

subsection \<open>C7\<close>

text \<open>
  C7: for every string \<open>s\<close>, \<open>abbreviate_name s\<close> has length \<open>min (length s) 4\<close>; it is
  the first four characters of \<open>s\<close> when \<open>s\<close> is longer than four, and \<open>s\<close> itself, with
  no padding, otherwise.
\<close>

theorem abbreviate_name_prefix:
  "length (abbreviate_name s) = min (length s) 4
   \<and> (length s > 4 \<longrightarrow> abbreviate_name s = take 4 s)
   \<and> (length s \<le> 4 \<longrightarrow> abbreviate_name s = s)"
  by (simp add: abbreviate_name_def)

theorem abbreviate_name_prefix_witness:
  "length (abbreviate_name ''Elizabeth'') = 4
   \<and> abbreviate_name ''Elizabeth'' = ''Eliz''
   \<and> abbreviate_name ''Al'' = ''Al''"
  using abbreviate_name_prefix [of "''Elizabeth''"] abbreviate_name_prefix [of "''Al''"]
  by simp

subsection \<open>C10\<close>




section \<open>Table renderer\<close>

lemma format_cell_eq:
  "format_cell r row c =
     (let s = (case map_of row c of
                 None \<Rightarrow> []
               | Some x \<Rightarrow> if x = PNone then [] else py_str r x)
      in if length s > 50 then take 47 s @ ''...'' else s)"
  by (simp add: format_cell_def Let_def split: option.splits)

subsection \<open>C5\<close>

text \<open>
  C5: when the column and header counts agree, \<open>format\<close> returns one row per record and
  one cell per column. With \<open>s\<close> the string form of the value looked up (empty for an
  absent key and for \<open>None\<close>), a cell with \<open>length s > 50\<close> is the first 47 characters
  of \<open>s\<close> followed by three dots, has exactly 50 characters and ends in the dots; a
  cell with \<open>length s \<le> 50\<close> is \<open>s\<close> unchanged.
\<close>

theorem format_cell_truncation:
  assumes "length columns = length headers"
  shows "\<exists>rows. format r data columns headers = ([], Inr rows)
     \<and> length rows = length data
     \<and> (\<forall>i < length data. length (rows ! i) = length columns
          \<and> (\<forall>j < length columns.
               let cell = rows ! i ! j;
                   v = map_of (data ! i) (columns ! j);
                   s = (case v of None \<Rightarrow> [] | Some x \<Rightarrow> if x = PNone then [] else py_str r x)
               in (length s > 50 \<longrightarrow> cell = take 47 s @ ''...'' \<and> length cell = 50
                                         \<and> drop 47 cell = ''...'')
                \<and> (length s \<le> 50 \<longrightarrow> cell = s)
                \<and> (v = Some PNone \<longrightarrow> cell = [])
                \<and> (v = None \<longrightarrow> cell = [])))"
proof -
  let ?rows = "map (\<lambda>row. map (format_cell r row) columns) data"
  have ret: "format r data columns headers = ([], Inr ?rows)"
    using assms by (simp add: format_def io_return_def)
  have cells: "\<forall>i < length data. length (?rows ! i) = length columns
          \<and> (\<forall>j < length columns.
               let cell = ?rows ! i ! j;
                   v = map_of (data ! i) (columns ! j);
                   s = (case v of None \<Rightarrow> [] | Some x \<Rightarrow> if x = PNone then [] else py_str r x)
               in (length s > 50 \<longrightarrow> cell = take 47 s @ ''...'' \<and> length cell = 50
                                         \<and> drop 47 cell = ''...'')
                \<and> (length s \<le> 50 \<longrightarrow> cell = s)
                \<and> (v = Some PNone \<longrightarrow> cell = [])
                \<and> (v = None \<longrightarrow> cell = []))"
    by (simp add: format_cell_eq Let_def)
  show ?thesis using ret cells by (intro exI [of _ ?rows]) simp
qed

theorem format_cell_truncation_witness:
  "length [''name'', ''description'', ''status'', ''missing'']
     = length [''Name'', ''Description'', ''Status'', ''Other'']
   \<and> (\<exists>rows. format repr_unused
        [[(''name'', PStr ''John''), (''description'', PStr (replicate 60 (CHR ''a''))),
          (''status'', PNone)]]
        [''name'', ''description'', ''status'', ''missing'']
        [''Name'', ''Description'', ''Status'', ''Other'']
        = ([], Inr rows)
      \<and> rows ! 0 ! 0 = ''John''
      \<and> rows ! 0 ! 1 = replicate 47 (CHR ''a'') @ ''...''
      \<and> length (rows ! 0 ! 1) = 50
      \<and> rows ! 0 ! 2 = []
      \<and> rows ! 0 ! 3 = [])"
proof -
  let ?cols = "[''name'', ''description'', ''status'', ''missing'']"
  let ?hdrs = "[''Name'', ''Description'', ''Status'', ''Other'']"
  let ?data = "[[(''name'', PStr ''John''), (''description'', PStr (replicate 60 (CHR ''a''))),
                 (''status'', PNone)]]"
  have h: "length ?cols = length ?hdrs" by simp
  from format_cell_truncation [OF h, of repr_unused ?data] obtain rows where
    ret: "format repr_unused ?data ?cols ?hdrs = ([], Inr rows)" and
    cells: "\<forall>i < length ?data. length (rows ! i) = length ?cols
          \<and> (\<forall>j < length ?cols.
               let cell = rows ! i ! j;
                   v = map_of (?data ! i) (?cols ! j);
                   s = (case v of None \<Rightarrow> []
                        | Some x \<Rightarrow> if x = PNone then [] else py_str repr_unused x)
               in (length s > 50 \<longrightarrow> cell = take 47 s @ ''...'' \<and> length cell = 50
                                         \<and> drop 47 cell = ''...'')
                \<and> (length s \<le> 50 \<longrightarrow> cell = s)
                \<and> (v = Some PNone \<longrightarrow> cell = [])
                \<and> (v = None \<longrightarrow> cell = []))"
    by blast
  from cells have row0: "\<forall>j < length ?cols.
               let cell = rows ! 0 ! j;
                   v = map_of (?data ! 0) (?cols ! j);
                   s = (case v of None \<Rightarrow> []
                        | Some x \<Rightarrow> if x = PNone then [] else py_str repr_unused x)
               in (length s > 50 \<longrightarrow> cell = take 47 s @ ''...'' \<and> length cell = 50
                                         \<and> drop 47 cell = ''...'')
                \<and> (length s \<le> 50 \<longrightarrow> cell = s)
                \<and> (v = Some PNone \<longrightarrow> cell = [])
                \<and> (v = None \<longrightarrow> cell = [])"
    by simp
  have c0: "rows ! 0 ! 0 = ''John''"
    using row0 [rule_format, of 0] by (simp add: Let_def)
  have c1: "rows ! 0 ! 1 = replicate 47 (CHR ''a'') @ ''...'' \<and> length (rows ! 0 ! 1) = 50"
    using row0 [rule_format, of 1] by (simp add: Let_def)
  have c2: "rows ! 0 ! 2 = []"
    using row0 [rule_format, of 2] by (simp add: Let_def)
  have c3: "rows ! 0 ! 3 = []"
    using row0 [rule_format, of 3] by (simp add: Let_def)
  show ?thesis using h ret c0 c1 c2 c3 by blast
qed

subsection \<open>C6\<close>

text \<open>
  C6: whenever the numbers of columns and headers differ, \<open>format\<close> fails for every
  record list, the empty one included: it prints one error line that names both counts
  and raises \<open>SystemExit 1\<close>; no rows are returned.
\<close>

theorem format_count_mismatch_fatal:
  "length columns \<noteq> length headers \<Longrightarrow>
   format r data columns headers =
     ([Stderr (cross_mark @ '' Columns ('' @ str_nat (length columns) @ '') and headers (''
                 @ str_nat (length headers) @ '') count mismatch'')],
      Inl (SystemExit 1))"
  by (simp add: format_def display_error_eq)

theorem format_count_mismatch_fatal_witness:
  "length [''name'', ''email''] \<noteq> length [''Name'']
   \<and> format repr_unused [] [''name'', ''email''] [''Name'']
       = ([Stderr (cross_mark @ '' Columns (2) and headers (1) count mismatch'')],
          Inl (SystemExit 1))"
proof -
  have h: "length [''name'', ''email''] \<noteq> length [''Name'']" by simp
  have d2: "str_nat (length [''name'', ''email'']) = ''2''" by code_simp
  have d1: "str_nat (length [''Name'']) = ''1''" by code_simp
  have "format repr_unused [] [''name'', ''email''] [''Name'']
      = ([Stderr (cross_mark @ '' Columns ('' @ ''2'' @ '') and headers ('' @ ''1''
            @ '') count mismatch'')], Inl (SystemExit 1))"
    using format_count_mismatch_fatal [OF h, of repr_unused "[]"] unfolding d2 d1 .
  then show ?thesis using h by simp
qed

subsection \<open>C8\<close>

text \<open>
  C8: \<open>print_table\<close> on an empty record list prints exactly \<open>No data available\<close> and
  returns, whatever the columns, the headers and the table library are (no row is
  formatted and nothing is rendered); \<open>table\<close> on an empty list of rows returns the
  string \<open>No data to display\<close>.
\<close>

theorem print_table_empty:
  "print_table r tab [] columns headers = ([Stdout ''No data available''], Inr ())
   \<and> table tab [] headers style = ([], Inr ''No data to display'')"
  by (simp add: print_table_def table_def print_stdout_def io_return_def)

section \<open>Command dispatcher\<close>

lemma validate_empty_environment_fails:
  "validate Map.empty
     = ([Stderr ''Error: Required environment variable AIRTABLE_API_KEY not set'',
         Stderr ''Tip: Copy .env.example to .env and add your credentials''],
        Inl (SystemExit 1))"
  by (simp add: validate_def require_def config_get_def config_error_def io_bind_def
        print_stderr_def sys_exit_def)

subsection \<open>C9\<close>

text \<open>
  C9: on an argument vector of fewer than two tokens \<open>parse\<close> yields the command
  \<open>help\<close> with no remaining arguments, and routing it is dispatching an explicit
  \<open>help\<close>: the help text is printed on standard output and nothing else, in every
  environment and with every command module (so the configuration is not validated and
  no variable is required), and the process ends with exit status 0.
\<close>

theorem route_without_command_is_help:
  "length argv < 2 \<Longrightarrow>
     parse argv = (''help'', [])
     \<and> route env gr argv = dispatch env gr ''help'' []
     \<and> route env gr argv = ([Stdout help_text], Inr ())
     \<and> exit_status (route env gr argv) = 0"
  by (simp add: parse_def route_def dispatch_def show_help_def print_stdout_def
        exit_status_def)

theorem route_without_command_is_help_witness:
  "length [''fac.py''] < 2
   \<and> route Map.empty None [''fac.py''] = ([Stdout help_text], Inr ())
   \<and> route Map.empty None [''fac.py''] = dispatch Map.empty None ''help'' []
   \<and> exit_status (route Map.empty None [''fac.py'']) = 0"
proof -
  have h: "length [''fac.py''] < 2" by simp
  show ?thesis using h route_without_command_is_help [OF h, of Map.empty None] by blast
qed

end
